theory Spec2Isabelle
  imports Complex_Main "HOL-Library.Multiset"
begin

section \<open>Geometry: angular separation (astro\_extract.py, angsep\_deg)\<close>

text \<open>
  Python floats are modelled as real numbers; \<open>math.radians\<close>, \<open>math.degrees\<close>,
  \<open>math.sin\<close>, \<open>math.cos\<close> and \<open>math.acos\<close> are their real counterparts. The
  clamp \<open>max(-1.0, min(1.0, x))\<close> is kept as written.
\<close>

definition radians :: "real \<Rightarrow> real" where
  "radians d = d * pi / 180"

definition degrees :: "real \<Rightarrow> real" where
  "degrees r = r * 180 / pi"

definition angsep_deg :: "real \<Rightarrow> real \<Rightarrow> real \<Rightarrow> real \<Rightarrow> real" where
  "angsep_deg ra1_deg dec1_deg ra2_deg dec2_deg =
     (let ra1 = radians ra1_deg; dec1 = radians dec1_deg;
          ra2 = radians ra2_deg; dec2 = radians dec2_deg
      in degrees (arccos (max (-1) (min 1
           (sin dec1 * sin dec2 + cos dec1 * cos dec2 * cos (ra1 - ra2))))))"

section \<open>Object records (the dictionaries of run\_solve\_field and parse\_objs\_file)\<close>

text \<open>
  The object dictionaries of the program carry a closed set of keys, each with one value
  type: \<open>raw\<close>, \<open>name\<close>, \<open>catalog\<close>, \<open>id\<close> (strings), \<open>ra_deg\<close>, \<open>dec_deg\<close>,
  \<open>sep_arcmin\<close> (floats). A dictionary is a record of optional fields; \<open>None\<close> is an
  absent key. The key \<open>id\<close> is the field \<open>ident\<close>.
\<close>

record mention =
  raw :: "string option"
  name :: "string option"
  catalog :: "string option"
  ident :: "string option"
  ra_deg :: "real option"
  dec_deg :: "real option"
  sep_arcmin :: "real option"

definition empty_mention :: mention where
  "empty_mention = \<lparr>raw = None, name = None, catalog = None, ident = None,
                      ra_deg = None, dec_deg = None, sep_arcmin = None\<rparr>"

text \<open>Python truthiness of a string value used in \<open>if catalog:\<close>, \<open>if ident:\<close>, \<open>if name\<close>.\<close>

definition truthy_str :: "string option \<Rightarrow> string option" where
  "truthy_str v = (case v of None \<Rightarrow> None | Some s \<Rightarrow> (if s = [] then None else Some s))"

text \<open>
  Lines 393-398 of run\_solve\_field: the dictionary built for one line of the block
  "Your field contains:".
\<close>

definition stdout_obj :: "string \<Rightarrow> string \<Rightarrow> string option \<Rightarrow> string option \<Rightarrow> mention" where
  "stdout_obj line nm cat idt =
     empty_mention\<lparr>raw := Some line, name := Some nm,
                    catalog := truthy_str cat, ident := truthy_str idt\<rparr>"

text \<open>
  Lines 280-286 of parse\_objs\_file: the dictionary appended for one line \<open>t\<close> of the
  .objs file, from the name, coordinates, catalog and id the line parser found.
\<close>

definition objs_item ::
  "string \<Rightarrow> string option \<Rightarrow> real option \<Rightarrow> real option \<Rightarrow> string option \<Rightarrow> string option \<Rightarrow> mention" where
  "objs_item t nm ra dec cat idt =
     (case (truthy_str nm, ra, dec) of
        (Some n, Some r, Some d) \<Rightarrow>
          empty_mention\<lparr>name := Some n, ra_deg := Some r, dec_deg := Some d,
                         catalog := truthy_str cat, ident := truthy_str idt\<rparr>
      | _ \<Rightarrow> empty_mention\<lparr>raw := Some t\<rparr>)"

section \<open>ObjectReconciler (run\_solve\_field, lines 417-455)\<close>

text \<open>
  The two string methods the local function \<open>norm\<close> calls, \<open>str.lower\<close> and
  \<open>str.strip\<close>, are parameters: they follow the Unicode tables of the interpreter. A Python
  string is its text as a \<open>string\<close> (the UTF-8 encoding of text beyond ASCII), and every
  statement about the merge holds for whatever the two methods compute.
\<close>

record pystr =
  str_lower :: "string \<Rightarrow> string"
  str_strip :: "string \<Rightarrow> string"

text \<open>\<open>norm\<close>: \<open>return s.lower().strip()\<close>\<close>

definition norm_str :: "pystr \<Rightarrow> string \<Rightarrow> string" where
  "norm_str py s = str_strip py (str_lower py s)"

text \<open>
  What the two methods compute on ASCII text, for evaluating examples: the letters A-Z are
  folded, and the white-space characters (codes 9-13 and 28-32) are removed at both ends.
\<close>

definition lower_char :: "char \<Rightarrow> char" where
  "lower_char c = (let n = (of_char c :: nat) in if 65 \<le> n \<and> n \<le> 90 then char_of (n + 32) else c)"

definition is_space :: "char \<Rightarrow> bool" where
  "is_space c = (let n = (of_char c :: nat) in (9 \<le> n \<and> n \<le> 13) \<or> (28 \<le> n \<and> n \<le> 32))"

definition strip :: "string \<Rightarrow> string" where
  "strip s = rev (dropWhile is_space (rev (dropWhile is_space s)))"

definition ascii_str :: pystr where
  "ascii_str = \<lparr>str_lower = map lower_char, str_strip = strip\<rparr>"

text \<open>\<open>norm(o2.get("name", o2.get("raw", "")))\<close>\<close>

definition obj_key :: "pystr \<Rightarrow> mention \<Rightarrow> string" where
  "obj_key py ob = norm_str py (case name ob of Some n \<Rightarrow> n
                      | None \<Rightarrow> (case raw ob of Some r \<Rightarrow> r | None \<Rightarrow> []))"

text \<open>The inner loop with \<open>break\<close>: the first \<open>p\<close> that has a name whose norm is the key.\<close>

fun first_match :: "pystr \<Rightarrow> string \<Rightarrow> mention list \<Rightarrow> mention option" where
  "first_match py key [] = None"
| "first_match py key (p # ps) =
     (case name p of
        Some n \<Rightarrow> if norm_str py n = key then Some p else first_match py key ps
      | None \<Rightarrow> first_match py key ps)"

text \<open>\<open>o2.update({k: v for k, v in match.items() if k not in ("raw",)})\<close>\<close>

definition overlay :: "'a option \<Rightarrow> 'a option \<Rightarrow> 'a option" where
  "overlay old new = (case new of None \<Rightarrow> old | Some v \<Rightarrow> Some v)"

definition update_from :: "mention \<Rightarrow> mention \<Rightarrow> mention" where
  "update_from o2 m =
     o2\<lparr>name := overlay (name o2) (name m),
        catalog := overlay (catalog o2) (catalog m),
        ident := overlay (ident o2) (ident m),
        ra_deg := overlay (ra_deg o2) (ra_deg m),
        dec_deg := overlay (dec_deg o2) (dec_deg m),
        sep_arcmin := overlay (sep_arcmin o2) (sep_arcmin m)\<rparr>"

text \<open>The body of the first loop, on the state \<open>(merged, used)\<close>.\<close>

definition merge_step ::
  "pystr \<Rightarrow> mention list \<Rightarrow> mention \<Rightarrow> mention list \<times> string set \<Rightarrow> mention list \<times> string set" where
  "merge_step py objs_with_radec ob st =
     (let key = obj_key py ob;
          o2 = (case first_match py key objs_with_radec of
                  None \<Rightarrow> ob
                | Some m \<Rightarrow> update_from ob m)
      in (fst st @ [o2], insert key (snd st)))"

text \<open>The body of the second loop, on \<open>merged\<close>; \<open>used\<close> is only read.\<close>

definition append_step :: "pystr \<Rightarrow> string set \<Rightarrow> mention \<Rightarrow> mention list \<Rightarrow> mention list" where
  "append_step py used p merged =
     (case name p of
        Some n \<Rightarrow> if norm_str py n \<notin> used then merged @ [p] else merged
      | None \<Rightarrow> merged)"

definition merge_objects :: "pystr \<Rightarrow> mention list \<Rightarrow> mention list \<Rightarrow> mention list" where
  "merge_objects py objects objs_with_radec =
     (let st = fold (merge_step py objs_with_radec) objects ([], {})
      in fold (append_step py (snd st)) objs_with_radec (fst st))"

text \<open>The separation loop, for one entry.\<close>

definition add_sep :: "real option \<Rightarrow> real option \<Rightarrow> mention \<Rightarrow> mention" where
  "add_sep ra_c dec_c ob =
     (case (ra_c, dec_c, ra_deg ob, dec_deg ob) of
        (Some rc, Some dc, Some r, Some d) \<Rightarrow> ob\<lparr>sep_arcmin := Some (angsep_deg rc dc r d * 60)\<rparr>
      | _ \<Rightarrow> ob)"

text \<open>\<open>lambda x: x.get("sep_arcmin", 1e9)\<close>\<close>

definition sep_key :: "mention \<Rightarrow> real" where
  "sep_key x = (case sep_arcmin x of Some s \<Rightarrow> s | None \<Rightarrow> 1000000000)"

text \<open>
  \<open>list.sort(key=...)\<close> is a stable sort on the keys; \<open>sort_key\<close> is the stable
  insertion sort of the list library.
\<close>

definition reconcile ::
  "pystr \<Rightarrow> real option \<Rightarrow> real option \<Rightarrow> mention list \<Rightarrow> mention list \<Rightarrow> mention list" where
  "reconcile py ra_c dec_c objects objs_with_radec =
     sort_key sep_key (map (add_sep ra_c dec_c) (merge_objects py objects objs_with_radec))"

section \<open>ResultAssembler: normalization (astro\_extract.py, to\_native)\<close>

text \<open>
  Python values as \<open>to_native\<close> tells them apart, one constructor for each branch of
  its \<open>isinstance\<close> chain. What the library conversions return is carried by the value:
  \<^item> \<open>PFraction f\<close>, \<open>PDecimal f\<close>: a Fraction or Decimal with \<open>float(obj) = f\<close>;
  \<^item> \<open>PIFDRational r\<close>: an IFDRational; \<open>float(obj)\<close> returns \<open>f\<close> when \<open>r = Some f\<close>
    and raises when \<open>r = None\<close>;
  \<^item> \<open>PBytes t\<close>: bytes or bytearray with \<open>obj.decode("utf-8", errors="replace") = t\<close>;
  \<^item> \<open>NpGeneric v\<close>: a numpy scalar (that is no bool, int, float or str) with \<open>obj.item() = v\<close>;
  \<^item> \<open>NpArray (Some xs)\<close>: a numpy array whose \<open>obj.tolist()\<close> iterates over \<open>xs\<close>;
    \<open>NpArray None\<close>: one whose \<open>tolist()\<close> is not iterable (the \<open>TypeError\<close> is caught);
  \<^item> \<open>PDict kvs\<close>: a dict with the items \<open>kvs\<close> in insertion order;
  \<^item> \<open>PList\<close>, \<open>PTuple\<close>, \<open>PSet\<close>: the elements in iteration order;
  \<^item> \<open>PObject n\<close>: any other object (a complex number, a date, ...), \<open>n\<close> telling it apart.
  The builtin \<open>str\<close> on a value that is not a \<open>str\<close> is the parameter \<open>str_of\<close>.
\<close>

datatype pyval =
    PNone
  | PBool bool
  | PInt int
  | PFloat real
  | PStr string
  | PFraction real
  | PDecimal real
  | PIFDRational "real option"
  | PBytes string
  | NpGeneric pyval
  | NpArray "pyval list option"
  | PDict "(pyval \<times> pyval) list"
  | PList "pyval list"
  | PTuple "pyval list"
  | PSet "pyval list"
  | PObject string

text \<open>\<open>str(k)\<close>: a \<open>str\<close> is returned as it is.\<close>

definition py_str :: "(pyval \<Rightarrow> string) \<Rightarrow> pyval \<Rightarrow> string" where
  "py_str str_of v = (case v of PStr s \<Rightarrow> s | _ \<Rightarrow> str_of v)"

text \<open>
  A dict comprehension stores its items one by one: a key stored again keeps its place and
  takes the new value.
\<close>

fun dict_store :: "'k \<Rightarrow> 'v \<Rightarrow> ('k \<times> 'v) list \<Rightarrow> ('k \<times> 'v) list" where
  "dict_store k v [] = [(k, v)]"
| "dict_store k v (p # ps) = (if fst p = k then (k, v) # ps else p # dict_store k v ps)"

definition dict_comp :: "('k \<times> 'v) list \<Rightarrow> ('k \<times> 'v) list" where
  "dict_comp kvs = fold (\<lambda>kv d. dict_store (fst kv) (snd kv) d) kvs []"

fun to_native :: "(pyval \<Rightarrow> string) \<Rightarrow> pyval \<Rightarrow> pyval" where
  "to_native str_of PNone = PNone"
| "to_native str_of (PBool b) = PBool b"
| "to_native str_of (PInt i) = PInt i"
| "to_native str_of (PFloat f) = PFloat f"
| "to_native str_of (PStr s) = PStr s"
| "to_native str_of (PFraction f) = PFloat f"
| "to_native str_of (PDecimal f) = PFloat f"
| "to_native str_of (PIFDRational r) =
     (case r of Some f \<Rightarrow> PFloat f | None \<Rightarrow> PStr (str_of (PIFDRational r)))"
| "to_native str_of (PBytes t) = PStr t"
| "to_native str_of (NpGeneric v) = v"
| "to_native str_of (NpArray (Some xs)) = PList (map (to_native str_of) xs)"
| "to_native str_of (NpArray None) = PStr (str_of (NpArray None))"
| "to_native str_of (PDict kvs) =
     PDict (dict_comp (map (\<lambda>kv. (PStr (py_str str_of (fst kv)), to_native str_of (snd kv))) kvs))"
| "to_native str_of (PList xs) = PList (map (to_native str_of) xs)"
| "to_native str_of (PTuple xs) = PList (map (to_native str_of) xs)"
| "to_native str_of (PSet xs) = PList (map (to_native str_of) xs)"
| "to_native str_of (PObject n) = PStr (str_of (PObject n))"

text \<open>
  The JSON-serializable natives the docstring of \<open>to_native\<close> promises: \<open>None\<close>,
  \<open>bool\<close>, \<open>int\<close>, \<open>float\<close>, \<open>str\<close>, lists of natives and dicts from
  distinct \<open>str\<close> keys to natives.
\<close>

fun is_native :: "pyval \<Rightarrow> bool" where
  "is_native PNone = True"
| "is_native (PBool b) = True"
| "is_native (PInt i) = True"
| "is_native (PFloat f) = True"
| "is_native (PStr s) = True"
| "is_native (PList xs) = list_all is_native xs"
| "is_native (PDict kvs) =
     (list_all (\<lambda>kv. (case fst kv of PStr s \<Rightarrow> True | _ \<Rightarrow> False) \<and> is_native (snd kv)) kvs
      \<and> distinct (map fst kvs))"
| "is_native v = False"

text \<open>Values that hold no numpy scalar at a place \<open>to_native\<close> converts.\<close>

fun no_np_scalar :: "pyval \<Rightarrow> bool" where
  "no_np_scalar (NpGeneric v) = False"
| "no_np_scalar (NpArray (Some xs)) = list_all no_np_scalar xs"
| "no_np_scalar (PDict kvs) = list_all (\<lambda>kv. no_np_scalar (snd kv)) kvs"
| "no_np_scalar (PList xs) = list_all no_np_scalar xs"
| "no_np_scalar (PTuple xs) = list_all no_np_scalar xs"
| "no_np_scalar (PSet xs) = list_all no_np_scalar xs"
| "no_np_scalar v = True"

section \<open>SolutionParser: the .wcs header (run\_solve\_field, lines 404-415)\<close>

text \<open>
  A header value as \<open>hdr.get(k)\<close> returns it; an absent keyword is \<open>None\<close> of the
  lookup. \<open>float\<close> of a string is the parameter \<open>str_float\<close> (\<open>None\<close> when it
  raises); \<open>float\<close> of an undefined card value raises.
\<close>

datatype hval = HFloat real | HInt int | HBool bool | HStr string | HUndefined

type_synonym header = "(string \<times> hval) list"

text \<open>\<open>float(hdr.get(k))\<close>; \<open>None\<close> is the exception \<open>float\<close> raises.\<close>

definition py_float :: "(string \<Rightarrow> real option) \<Rightarrow> hval option \<Rightarrow> real option" where
  "py_float str_float v =
     (case v of
        None \<Rightarrow> None
      | Some (HFloat f) \<Rightarrow> Some f
      | Some (HInt i) \<Rightarrow> Some (of_int i)
      | Some (HBool b) \<Rightarrow> Some (if b then 1 else 0)
      | Some (HStr s) \<Rightarrow> str_float s
      | Some HUndefined \<Rightarrow> None)"

text \<open>The part of the dictionary \<open>astro\<close> that is built before the objects are merged.\<close>

record astro =
  ra_center :: "real option"
  dec_center :: "real option"
  fov_deg :: "(real \<times> real) option"
  pixscale_arcsec :: "real option"
  orientation_deg :: "real option"
  cd_matrix :: "(string \<times> real) list option"

datatype wcs_file = NoWcsFile | UnreadableWcs | WcsHeader header

definition cd_keys :: "string list" where
  "cd_keys = [''CD1_1'', ''CD1_2'', ''CD2_1'', ''CD2_2'']"

text \<open>
  The comprehension \<open>{k: float(hdr.get(k)) for k in (...) if hdr.get(k) is not None}\<close>;
  \<open>None\<close> when a \<open>float\<close> raises.
\<close>

fun cd_comp :: "(string \<Rightarrow> real option) \<Rightarrow> header \<Rightarrow> string list \<Rightarrow> (string \<times> real) list option" where
  "cd_comp str_float hdr [] = Some []"
| "cd_comp str_float hdr (k # ks) =
     (case map_of hdr k of
        None \<Rightarrow> cd_comp str_float hdr ks
      | Some v \<Rightarrow>
          (case py_float str_float (Some v) of
             None \<Rightarrow> None
           | Some f \<Rightarrow>
               (case cd_comp str_float hdr ks of
                  None \<Rightarrow> None
                | Some r \<Rightarrow> Some ((k, f) # r))))"

definition setdefault :: "'a option \<Rightarrow> 'a \<Rightarrow> 'a option" where
  "setdefault old v = (case old of None \<Rightarrow> Some v | Some w \<Rightarrow> Some w)"

text \<open>
  The \<open>try\<close> block: an exception leaves \<open>astro\<close> as the statements before it made it.
\<close>

definition read_wcs :: "(string \<Rightarrow> real option) \<Rightarrow> wcs_file \<Rightarrow> astro \<Rightarrow> astro" where
  "read_wcs str_float w a =
     (case w of
        NoWcsFile \<Rightarrow> a
      | UnreadableWcs \<Rightarrow> a
      | WcsHeader hdr \<Rightarrow>
          (case py_float str_float (map_of hdr ''CRVAL1'') of
             None \<Rightarrow> a
           | Some v1 \<Rightarrow>
               (let a1 = a\<lparr>ra_center := setdefault (ra_center a) v1\<rparr>
                in case py_float str_float (map_of hdr ''CRVAL2'') of
                     None \<Rightarrow> a1
                   | Some v2 \<Rightarrow>
                       (let a2 = a1\<lparr>dec_center := setdefault (dec_center a1) v2\<rparr>
                        in case cd_comp str_float hdr cd_keys of
                             None \<Rightarrow> a2
                           | Some cd \<Rightarrow> if cd \<noteq> [] then a2\<lparr>cd_matrix := Some cd\<rparr> else a2))))"

section \<open>JobStore and JobEngine (astro\_jobs\_cli.py)\<close>

text \<open>
  The states a job's status document takes: the strings \<open>queued\<close>, \<open>processing\<close>,
  \<open>done\<close> and \<open>error\<close>.
\<close>

datatype job_state = Queued | Processing | Done | Error

record params =
  scale_low :: "real option"
  scale_high :: "real option"
  downsample :: "int option"
  timeout :: "int option"

text \<open>
  The status document. \<open>created_at\<close> is missing when the document was rebuilt from an
  unreadable status file.
\<close>

record status_doc =
  sd_job_id :: string
  sd_state :: job_state
  sd_message :: "string option"
  sd_params :: "params option"
  sd_created_at :: "real option"
  sd_updated_at :: real

datatype json =
    JNull
  | JBool bool
  | JNum real
  | JStr string
  | JArr "json list"
  | JObj "(string \<times> json) list"

text \<open>What a file holds: a document \<open>json.loads\<close> reads back, or text it rejects.\<close>

datatype 'a stored = Json 'a | Garbled

text \<open>
  The artifacts of one job under \<open>$JOBS_DIR/<job_id>\<close>: the files of \<open>input/\<close>,
  \<open>status.json\<close>, \<open>output/result.json\<close> and \<open>task.log\<close> (\<open>None\<close>: no such file).
  The directory tree \<open>jobs_dir\<close> maps a job identifier to its artifacts; \<open>None\<close> means
  that the job's directories \<open>root\<close>, \<open>root/input\<close> and \<open>root/output\<close> do not exist.

  The tree is indexed by identifiers that are a single path component, as the
  \<open>uuid.uuid4().hex\<close> of \<open>cmd_submit\<close> is: for these \<open>JOBS_DIR / job_id\<close> is the
  directory of that name directly under \<open>JOBS_DIR\<close>, and the trees of different
  identifiers are disjoint. The commands \<open>status\<close> and \<open>result\<close> take the identifier from
  the command line and join it to \<open>JOBS_DIR\<close> unchecked; for an identifier that is no single
  component (empty, \<open>.\<close>, \<open>..\<close>, or with a \<open>/\<close>) the path leads into another job's
  tree or out of \<open>JOBS_DIR\<close>, which this tree does not describe.
\<close>

record job_area =
  input_files :: "string list"
  status_file :: "status_doc stored option"
  result_file :: "json stored option"
  log_file :: "string list option"

type_synonym jobs_dir = "string \<Rightarrow> job_area option"

definition single_component :: "string \<Rightarrow> bool" where
  "single_component job_id =
     (job_id \<noteq> [] \<and> CHR ''/'' \<notin> set job_id \<and> job_id \<noteq> ''.'' \<and> job_id \<noteq> ''..'')"

definition empty_area :: job_area where
  "empty_area = \<lparr>input_files = [], status_file = None, result_file = None, log_file = None\<rparr>"

text \<open>\<open>ensure_job_dirs\<close>: both \<open>mkdir(parents=True, exist_ok=True)\<close>.\<close>

definition ensure_job_dirs :: "string \<Rightarrow> jobs_dir \<Rightarrow> jobs_dir" where
  "ensure_job_dirs job_id fs =
     (case fs job_id of None \<Rightarrow> fs(job_id \<mapsto> empty_area) | Some a \<Rightarrow> fs)"

text \<open>The area of a job after \<open>ensure_job_dirs\<close>.\<close>

definition area_of :: "string \<Rightarrow> jobs_dir \<Rightarrow> job_area" where
  "area_of job_id fs = (case fs job_id of None \<Rightarrow> empty_area | Some a \<Rightarrow> a)"

text \<open>
  \<open>write_status\<close>, at the time \<open>now\<close>. The document read from a file that does not
  parse is the empty dictionary; \<open>params or current.get("params")\<close> keeps the stored
  parameters when none are passed.
\<close>

definition write_status ::
  "real \<Rightarrow> string \<Rightarrow> job_state \<Rightarrow> string option \<Rightarrow> params option \<Rightarrow> jobs_dir \<Rightarrow> jobs_dir \<times> status_doc" where
  "write_status now job_id state message ps fs =
     (let fs1 = ensure_job_dirs job_id fs;
          a = area_of job_id fs1;
          created = (case status_file a of
                       None \<Rightarrow> Some now
                     | Some Garbled \<Rightarrow> None
                     | Some (Json cur) \<Rightarrow> sd_created_at cur);
          old_params = (case status_file a of
                          Some (Json cur) \<Rightarrow> sd_params cur
                        | _ \<Rightarrow> None);
          current = \<lparr>sd_job_id = job_id, sd_state = state, sd_message = message,
                     sd_params = (case ps of Some p \<Rightarrow> Some p | None \<Rightarrow> old_params),
                     sd_created_at = created, sd_updated_at = now\<rparr>
      in (fs1(job_id \<mapsto> a\<lparr>status_file := Some (Json current)\<rparr>), current))"

definition read_status :: "string \<Rightarrow> jobs_dir \<Rightarrow> jobs_dir \<times> status_doc option" where
  "read_status job_id fs =
     (let fs1 = ensure_job_dirs job_id fs
      in (fs1, case status_file (area_of job_id fs1) of
                 None \<Rightarrow> None
               | Some Garbled \<Rightarrow> None
               | Some (Json d) \<Rightarrow> Some d))"

subsection \<open>The worker (run\_worker)\<close>

text \<open>
  What the \<open>try\<close> block of the worker meets: \<open>subprocess.run\<close> or the writing of the
  log raises an exception with the text \<open>e\<close>, or the extractor ends with a return code and
  its standard output and the log entry is appended.
\<close>

datatype exec_outcome = ExecRaised string | ExecCompleted int string

text \<open>
  The library functions the worker calls are parameters: \<open>json.loads\<close> (\<open>None\<close>: it
  raises), \<open>str\<close> on a JSON value that is no string, and \<open>str\<close> on an integer.
\<close>

record pylib =
  loads :: "string \<Rightarrow> json option"
  str_json :: "json \<Rightarrow> string"
  str_int :: "int \<Rightarrow> string"

text \<open>How the worker ends: \<open>return\<close> with a code, or an exception nobody catches.\<close>

datatype worker_exit = Returned int | Uncaught string

text \<open>Truth value of a JSON value in \<open>if result.get("ok")\<close>.\<close>

definition json_truthy :: "json option \<Rightarrow> bool" where
  "json_truthy v =
     (case v of
        None \<Rightarrow> False
      | Some JNull \<Rightarrow> False
      | Some (JBool b) \<Rightarrow> b
      | Some (JNum n) \<Rightarrow> n \<noteq> 0
      | Some (JStr s) \<Rightarrow> s \<noteq> []
      | Some (JArr xs) \<Rightarrow> xs \<noteq> []
      | Some (JObj kvs) \<Rightarrow> kvs \<noteq> [])"

text \<open>\<open>str(result.get("error"))\<close>\<close>

definition error_text :: "pylib \<Rightarrow> json option \<Rightarrow> string" where
  "error_text lib v =
     (case v of
        None \<Rightarrow> ''None''
      | Some JNull \<Rightarrow> ''None''
      | Some (JStr s) \<Rightarrow> s
      | Some w \<Rightarrow> str_json lib w)"

text \<open>Lines 154-161: the result document made from the return code and the output.\<close>

definition interpret_stdout :: "pylib \<Rightarrow> int \<Rightarrow> string \<Rightarrow> json" where
  "interpret_stdout lib returncode out =
     (if returncode = 0 \<or> returncode = 2 then
        (case loads lib out of
           Some r \<Rightarrow> r
         | None \<Rightarrow> JObj [(''ok'', JBool False),
                          (''error'', JStr ''Invalid JSON from astro_extract''),
                          (''raw'', JStr (drop (length out - 2000) out))])
      else JObj [(''ok'', JBool False),
                 (''error'', JStr (''astro_extract exit code '' @ str_int lib returncode))])"

definition write_result :: "string \<Rightarrow> json \<Rightarrow> jobs_dir \<Rightarrow> jobs_dir" where
  "write_result job_id r fs = fs(job_id \<mapsto> (area_of job_id fs)\<lparr>result_file := Some (Json r)\<rparr>)"

definition append_log :: "string \<Rightarrow> string list \<Rightarrow> jobs_dir \<Rightarrow> jobs_dir" where
  "append_log job_id entries fs =
     fs(job_id \<mapsto> (area_of job_id fs)
          \<lparr>log_file := Some ((case log_file (area_of job_id fs) of None \<Rightarrow> [] | Some l \<Rightarrow> l) @ entries)\<rparr>)"

text \<open>
  The message \<open>Solving image\<close> ends with an ellipsis character in the source; it is
  written with three dots here. The three log lines are shortened to their tags.
\<close>

text \<open>
  \<open>run_worker\<close> returns how it ends and the trace of the directory tree: its state after
  each write, in order; the last one is the state the worker leaves. \<open>now1\<close> and
  \<open>now2\<close> are the clock at the two status writes.
\<close>

definition run_worker ::
  "pylib \<Rightarrow> exec_outcome \<Rightarrow> real \<Rightarrow> real \<Rightarrow> string \<Rightarrow> params \<Rightarrow> jobs_dir \<Rightarrow> worker_exit \<times> jobs_dir list" where
  "run_worker lib outcome now1 now2 job_id ps fs =
     (let fs1 = ensure_job_dirs job_id fs;
          fs2 = fst (write_status now1 job_id Processing (Some ''Solving image...'') (Some ps) fs1)
      in case outcome of
           ExecRaised e \<Rightarrow>
             (Returned 1,
              [fs1, fs2, fst (write_status now2 job_id Error (Some (''Execution failed: '' @ e)) None fs2)])
         | ExecCompleted returncode out \<Rightarrow>
             (let fs3 = append_log job_id [''[cmd]'', ''[stdout]'' @ out, ''[stderr]''] fs2;
                  result = interpret_stdout lib returncode out;
                  fs4 = write_result job_id result fs3
              in case result of
                   JObj kvs \<Rightarrow>
                     (if json_truthy (map_of kvs ''ok'') then
                        (Returned 0,
                         [fs1, fs2, fs3, fs4,
                          fst (write_status now2 job_id Done (Some ''Analysis complete'') None fs4)])
                      else
                        (Returned 2,
                         [fs1, fs2, fs3, fs4,
                          fst (write_status now2 job_id Error
                                 (Some (error_text lib (map_of kvs ''error''))) None fs4)]))
                 | _ \<Rightarrow> (Uncaught ''AttributeError'', [fs1, fs2, fs3, fs4])))"

subsection \<open>The commands submit, status and result\<close>

text \<open>The image reference of a submission: the resolved path, its last component, and
  whether the file exists.\<close>

record image_ref =
  img_path :: string
  img_name :: string
  img_exists :: bool

datatype submit_out = SubmitError string | SubmitOk string

text \<open>The detached worker process \<open>cmd_submit\<close> starts: job, image copy, parameters.\<close>

record spawn =
  sp_job_id :: string
  sp_image :: string
  sp_params :: params

text \<open>
  \<open>cmd_submit\<close> with the identifier \<open>uuid.uuid4().hex\<close> returned: the return code, the
  document printed, the directory tree and the worker started.
\<close>

definition cmd_submit ::
  "real \<Rightarrow> string \<Rightarrow> image_ref \<Rightarrow> params \<Rightarrow> jobs_dir \<Rightarrow> int \<times> submit_out \<times> jobs_dir \<times> spawn option" where
  "cmd_submit now job_id src ps fs =
     (let fs1 = ensure_job_dirs job_id fs
      in if \<not> img_exists src then
           (1, SubmitError (''Image not found: '' @ img_path src), fs1, None)
         else
           (let a = area_of job_id fs1;
                fs2 = fs1(job_id \<mapsto> a\<lparr>input_files := input_files a @ [img_name src]\<rparr>);
                fs3 = fst (write_status now job_id Queued (Some ''Job created'') (Some ps) fs2);
                fs4 = append_log job_id [] fs3
            in (0, SubmitOk job_id, fs4,
                Some \<lparr>sp_job_id = job_id, sp_image = ''input/'' @ img_name src, sp_params = ps\<rparr>)))"

datatype status_out = JobNotFound string | StatusDoc status_doc

definition cmd_status :: "string \<Rightarrow> jobs_dir \<Rightarrow> int \<times> status_out \<times> jobs_dir" where
  "cmd_status job_id fs =
     (case read_status job_id fs of
        (fs1, None) \<Rightarrow> (1, JobNotFound job_id, fs1)
      | (fs1, Some st) \<Rightarrow> (0, StatusDoc st, fs1))"

text \<open>
  The documents \<open>cmd_result\<close> prints: not ready with the state read (\<open>None\<close> is the
  text \<open>unknown\<close>), invalid result, or the stored result.
\<close>

datatype result_out = NotReady "job_state option" | InvalidResult | ResultDoc json

definition cmd_result :: "string \<Rightarrow> jobs_dir \<Rightarrow> int \<times> result_out \<times> jobs_dir" where
  "cmd_result job_id fs =
     (let fs1 = ensure_job_dirs job_id fs
      in case result_file (area_of job_id fs1) of
           None \<Rightarrow>
             (case read_status job_id fs1 of
                (fs2, st) \<Rightarrow> (1, NotReady (map_option sd_state st), fs2))
         | Some Garbled \<Rightarrow> (2, InvalidResult, fs1)
         | Some (Json data) \<Rightarrow> (0, ResultDoc data, fs1))"

subsection \<open>What a reader of the job store observes\<close>

text \<open>The state \<open>read_status\<close> reports, and the result file \<open>cmd_result\<close> looks at.\<close>

definition observed_state :: "string \<Rightarrow> jobs_dir \<Rightarrow> job_state option" where
  "observed_state job_id fs = map_option sd_state (snd (read_status job_id fs))"

definition stored_result :: "string \<Rightarrow> jobs_dir \<Rightarrow> json stored option" where
  "stored_result job_id fs = result_file (area_of job_id fs)"

definition terminal :: "job_state option \<Rightarrow> bool" where
  "terminal st = (st = Some Done \<or> st = Some Error)"

section \<open>Properties of the geometry and of the reconciler\<close>

lemma angsep_deg_bounds: "0 \<le> angsep_deg a b c d \<and> angsep_deg a b c d \<le> 180"
proof -
  define x where "x = max (-1) (min 1 (sin (radians b) * sin (radians d)
      + cos (radians b) * cos (radians d) * cos (radians a - radians c)))"
  have x: "-1 \<le> x" "x \<le> 1" by (auto simp: x_def)
  have "0 \<le> arccos x" "arccos x \<le> pi" using x by (auto intro: arccos_lbound arccos_ubound)
  then have "0 \<le> degrees (arccos x) \<and> degrees (arccos x) \<le> 180"
    by (simp add: degrees_def field_simps)
  then show ?thesis by (simp add: angsep_deg_def Let_def x_def)
qed

lemma fold_merge_step:
  "fold (merge_step py B) A st =
     (fst st @ map (\<lambda>ob. case first_match py (obj_key py ob) B of None \<Rightarrow> ob | Some m \<Rightarrow> update_from ob m) A,
      snd st \<union> obj_key py ` set A)"
  by (induction A arbitrary: st) (auto simp: merge_step_def Let_def)

lemma fold_append_step:
  "fold (append_step py used) B merged =
     merged @ filter (\<lambda>p. case name p of Some n \<Rightarrow> norm_str py n \<notin> used | None \<Rightarrow> False) B"
  by (induction B arbitrary: merged) (auto simp: append_step_def split: option.splits)


lemma first_match_named:
  "first_match py key (filter (\<lambda>p. name p \<noteq> None) B) = first_match py key B"
  by (induction B) (auto split: option.splits)

lemma first_match_mem: "first_match py key B = Some m \<Longrightarrow> m \<in> set B"
  by (induction B) (auto split: option.splits if_splits)

lemma merge_objects_eq:
  "merge_objects py A B =
     map (\<lambda>ob. case first_match py (obj_key py ob) B of None \<Rightarrow> ob | Some m \<Rightarrow> update_from ob m) A
     @ filter (\<lambda>p. case name p of Some n \<Rightarrow> norm_str py n \<notin> obj_key py ` set A | None \<Rightarrow> False) B"
  by (simp add: merge_objects_def Let_def fold_merge_step fold_append_step cong: option.case_cong)

lemma add_sep_cases:
  "sep_arcmin (add_sep rc dc ob) = sep_arcmin ob \<or>
   (\<exists>a b c d. sep_arcmin (add_sep rc dc ob) = Some (angsep_deg a b c d * 60))"
  by (auto simp: add_sep_def split: option.splits)

lemma add_sep_bound:
  assumes "sep_arcmin ob = None" "sep_arcmin (add_sep rc dc ob) = Some s"
  shows "0 \<le> s \<and> s \<le> 10800"
proof -
  from add_sep_cases[of rc dc ob] assms obtain a b c d where "s = angsep_deg a b c d * 60" by auto
  with angsep_deg_bounds[of a b c d] show ?thesis by simp
qed

lemma add_sep_value:
  "sep_arcmin ob = None \<Longrightarrow>
   (case (rc, dc, ra_deg (add_sep rc dc ob), dec_deg (add_sep rc dc ob)) of
      (Some c1, Some c2, Some r, Some d) \<Rightarrow>
        sep_arcmin (add_sep rc dc ob) = Some (angsep_deg c1 c2 r d * 60)
    | _ \<Rightarrow> sep_arcmin (add_sep rc dc ob) = None)"
  by (auto simp: add_sep_def split: option.splits)

lemma update_from_sep:
  "sep_arcmin ob = None \<Longrightarrow> sep_arcmin m = None \<Longrightarrow> sep_arcmin (update_from ob m) = None"
  by (simp add: update_from_def overlay_def)


lemma merge_objects_no_sep:
  assumes "\<forall>ob \<in> set A \<union> set B. sep_arcmin ob = None"
  shows "\<forall>x \<in> set (merge_objects py A B). sep_arcmin x = None"
proof
  fix x assume "x \<in> set (merge_objects py A B)"
  then consider ob where "ob \<in> set A"
      "x = (case first_match py (obj_key py ob) B of None \<Rightarrow> ob | Some m \<Rightarrow> update_from ob m)"
    | "x \<in> set B"
    by (auto simp: merge_objects_eq)
  then show "sep_arcmin x = None"
  proof cases
    case 1
    show ?thesis
    proof (cases "first_match py (obj_key py ob) B")
      case None
      then show ?thesis using 1 assms by simp
    next
      case (Some m)
      then have "m \<in> set B" by (rule first_match_mem)
      then show ?thesis using 1 Some assms by (simp add: update_from_sep)
    qed
  next
    case 2
    then show ?thesis using assms by simp
  qed
qed

lemma presorted_bound:
  assumes "\<forall>ob \<in> set A \<union> set B. sep_arcmin ob = None"
    and "x \<in> set (map (add_sep rc dc) (merge_objects py A B))" and "sep_arcmin x = Some s"
  shows "0 \<le> s \<and> s \<le> 10800"
  using assms merge_objects_no_sep[OF assms(1)] by (auto dest: add_sep_bound)

text \<open>The dictionaries the two producers build never carry the key \<open>sep_arcmin\<close>.\<close>

lemma producers_no_sep:
  "sep_arcmin (stdout_obj line nm cat idt) = None"
  "sep_arcmin (objs_item t nm' ra dec cat idt) = None"
  by (auto simp: stdout_obj_def objs_item_def empty_mention_def split: option.splits)

lemma stdout_obj_key: "obj_key py (stdout_obj line nm cat idt) = norm_str py nm"
  by (simp add: obj_key_def stdout_obj_def)

lemma ascii_norm_examples:
  "str_strip ascii_str (str_lower ascii_str ''M 1'') = ''m 1''"
  "str_strip ascii_str (str_lower ascii_str ''m 1'') = ''m 1''"
  "str_strip ascii_str (str_lower ascii_str ''Orion Nebula'') = ''orion nebula''"
  "str_strip ascii_str (str_lower ascii_str ''orion nebula'') = ''orion nebula''"
  "str_strip ascii_str (str_lower ascii_str ''ORION NEBULA'') = ''orion nebula''"
  "str_strip ascii_str (str_lower ascii_str ''Vega'') = ''vega''"
  "str_strip ascii_str (str_lower ascii_str ''vega'') = ''vega''"
  "str_strip ascii_str (str_lower ascii_str ''VEGA'') = ''vega''"
  "str_strip ascii_str (str_lower ascii_str ''far'') = ''far''"
  by code_simp+



text \<open>
  Claim C2, as stated, fails: a record of B without a name (the raw-only record
  parse\_objs\_file keeps for a line it cannot parse) is not in the merged output; the
  second loop appends only under the guard \<open>if "name" in p\<close>.
\<close>

theorem raw_only_record_is_dropped:
  "objs_item ''not a coordinate line'' (Some ''not'') None None None None
     \<notin> set (merge_objects ascii_str []
              [objs_item ''not a coordinate line'' (Some ''not'') None None None None])
   \<and> reconcile ascii_str None None []
        [objs_item ''not a coordinate line'' (Some ''not'') None None None None] = []"
  by (simp add: merge_objects_def append_step_def reconcile_def objs_item_def empty_mention_def
        truthy_str_def)

text \<open>
  Claim C2, amended. Whatever \<open>str.lower\<close> and \<open>str.strip\<close> compute: the entries of
  the merged list after the first \<open>length A\<close> are exactly the elements of B that have a
  name whose normalized form is that of no A element's name (or \<open>raw\<close> line, for an A
  element without a name), each once and in their original order, also when several of them
  share a normalized name; an element of B without a name is left out and takes part in no
  matching: removing all such elements from B leaves the merged list unchanged.
\<close>

theorem merge_appends_unmatched_named_records:
  "drop (length A) (merge_objects py A B) =
     filter (\<lambda>p. case name p of
                   Some n \<Rightarrow>
                     str_strip py (str_lower py n)
                     \<notin> (\<lambda>ob. str_strip py (str_lower py
                                 (case name ob of Some a \<Rightarrow> a
                                  | None \<Rightarrow> (case raw ob of Some r \<Rightarrow> r | None \<Rightarrow> [])))) ` set A
                 | None \<Rightarrow> False) B
   \<and> merge_objects py A (filter (\<lambda>p. name p \<noteq> None) B) = merge_objects py A B"
proof -
  have k: "obj_key py = (\<lambda>ob. str_strip py (str_lower py
                                 (case name ob of Some a \<Rightarrow> a
                                  | None \<Rightarrow> (case raw ob of Some r \<Rightarrow> r | None \<Rightarrow> []))))"
    by (rule ext) (simp add: obj_key_def norm_str_def)
  have "drop (length A) (merge_objects py A B) =
          filter (\<lambda>p. case name p of Some n \<Rightarrow> norm_str py n \<notin> obj_key py ` set A | None \<Rightarrow> False) B"
    by (simp add: merge_objects_eq)
  then have 1: "drop (length A) (merge_objects py A B) =
     filter (\<lambda>p. case name p of
                   Some n \<Rightarrow>
                     str_strip py (str_lower py n)
                     \<notin> (\<lambda>ob. str_strip py (str_lower py
                                 (case name ob of Some a \<Rightarrow> a
                                  | None \<Rightarrow> (case raw ob of Some r \<Rightarrow> r | None \<Rightarrow> [])))) ` set A
                 | None \<Rightarrow> False) B"
    unfolding k by (simp add: norm_str_def cong: option.case_cong)
  have f: "filter (\<lambda>p. case name p of Some n \<Rightarrow> norm_str py n \<notin> obj_key py ` set A | None \<Rightarrow> False)
             (filter (\<lambda>p. name p \<noteq> None) B)
           = filter (\<lambda>p. case name p of Some n \<Rightarrow> norm_str py n \<notin> obj_key py ` set A | None \<Rightarrow> False) B"
    by (induction B) (auto split: option.splits)
  have 2: "merge_objects py A (filter (\<lambda>p. name p \<noteq> None) B) = merge_objects py A B"
    by (simp only: merge_objects_eq first_match_named f)
  from 1 2 show ?thesis by blast
qed

theorem merge_appends_unmatched_named_records_witness:
  "drop (length [stdout_obj ''M 1'' ''M 1'' (Some ''M'') (Some ''1'')])
        (merge_objects ascii_str [stdout_obj ''M 1'' ''M 1'' (Some ''M'') (Some ''1'')]
           [objs_item ''a'' (Some ''Vega'') (Some 279) (Some 38) None None,
            objs_item ''junk'' None None None None None,
            objs_item ''b'' (Some ''m 1'') (Some 83) (Some 22) None None,
            objs_item ''c'' (Some ''VEGA'') (Some 1) (Some 2) None None])
   = [objs_item ''a'' (Some ''Vega'') (Some 279) (Some 38) None None,
      objs_item ''c'' (Some ''VEGA'') (Some 1) (Some 2) None None]"
  using merge_appends_unmatched_named_records
          [of "[stdout_obj ''M 1'' ''M 1'' (Some ''M'') (Some ''1'')]" ascii_str
           "[objs_item ''a'' (Some ''Vega'') (Some 279) (Some 38) None None,
            objs_item ''junk'' None None None None None,
            objs_item ''b'' (Some ''m 1'') (Some 83) (Some 22) None None,
            objs_item ''c'' (Some ''VEGA'') (Some 1) (Some 2) None None]"]
  by (simp add: stdout_obj_def objs_item_def empty_mention_def truthy_str_def ascii_norm_examples)


lemma angsep_deg_examples:
  "angsep_deg 0 0 0 0 = 0" "angsep_deg 0 0 90 0 = 90"
  by (simp_all add: angsep_deg_def radians_def degrees_def)

text \<open>
  Claim C3. For lists A and B whose dictionaries carry no \<open>sep_arcmin\<close> yet (as those
  of both producers do, \<open>producers_no_sep\<close>), the final list is sorted ascending by the
  sort key; of two entries that have a separation the earlier one has the smaller or equal
  separation; no entry without a separation stands before an entry with one; and the sort
  is stable: for every key value, and for every separation value, the entries with that
  value keep their order from before the sort, and so do the entries without a separation.
  An entry of the final list has a separation exactly when the field center and its own
  coordinates are known, and then it is 60 times angsep\_deg of the center and the
  coordinates.
\<close>

theorem reconcile_sorted_missing_last_stable:
  assumes "\<forall>ob \<in> set A \<union> set B. sep_arcmin ob = None"
  shows "sorted (map sep_key (reconcile py ra_c dec_c A B))
    \<and> (\<forall>i j s t. i < j \<and> j < length (reconcile py ra_c dec_c A B)
              \<and> sep_arcmin (reconcile py ra_c dec_c A B ! i) = Some s
              \<and> sep_arcmin (reconcile py ra_c dec_c A B ! j) = Some t
           \<longrightarrow> s \<le> t)
    \<and> (\<forall>i j. i < j \<and> j < length (reconcile py ra_c dec_c A B)
              \<and> sep_arcmin (reconcile py ra_c dec_c A B ! i) = None
           \<longrightarrow> sep_arcmin (reconcile py ra_c dec_c A B ! j) = None)
    \<and> (\<forall>k. filter (\<lambda>x. sep_key x = k) (reconcile py ra_c dec_c A B)
           = filter (\<lambda>x. sep_key x = k) (map (add_sep ra_c dec_c) (merge_objects py A B)))
    \<and> (\<forall>v. filter (\<lambda>x. sep_arcmin x = v) (reconcile py ra_c dec_c A B)
           = filter (\<lambda>x. sep_arcmin x = v) (map (add_sep ra_c dec_c) (merge_objects py A B)))
    \<and> filter (\<lambda>x. sep_arcmin x = None) (reconcile py ra_c dec_c A B)
           = filter (\<lambda>x. sep_arcmin x = None) (map (add_sep ra_c dec_c) (merge_objects py A B))
    \<and> (\<forall>x \<in> set (reconcile py ra_c dec_c A B).
          case (ra_c, dec_c, ra_deg x, dec_deg x) of
            (Some c1, Some c2, Some r, Some d) \<Rightarrow> sep_arcmin x = Some (angsep_deg c1 c2 r d * 60)
          | _ \<Rightarrow> sep_arcmin x = None)"
proof -
  let ?pre = "map (add_sep ra_c dec_c) (merge_objects py A B)"
  let ?out = "reconcile py ra_c dec_c A B"
  have out: "?out = sort_key sep_key ?pre" by (simp add: reconcile_def)
  have bound: "\<And>x s. x \<in> set ?pre \<Longrightarrow> sep_arcmin x = Some s \<Longrightarrow> s \<le> 10800"
    using presorted_bound[OF assms] by blast
  have key_none: "\<And>x. x \<in> set ?pre \<Longrightarrow> (sep_key x = 1000000000) = (sep_arcmin x = None)"
    using bound by (fastforce simp: sep_key_def split: option.splits)
  have key_some: "\<And>x s. x \<in> set ?pre \<Longrightarrow> s \<le> 10800 \<Longrightarrow> (sep_key x = s) = (sep_arcmin x = Some s)"
    by (auto simp: sep_key_def split: option.splits)
  have s: "sorted (map sep_key ?out)" unfolding out by simp
  have st: "\<forall>k. filter (\<lambda>x. sep_key x = k) ?out = filter (\<lambda>x. sep_key x = k) ?pre"
    unfolding out by (simp add: sort_key_stable)
  have setout: "set ?out = set ?pre" unfolding out by simp
  have "filter (\<lambda>x. sep_arcmin x = None) ?out = filter (\<lambda>x. sep_key x = 1000000000) ?out"
    by (rule filter_cong) (auto simp: key_none setout)
  also have "\<dots> = filter (\<lambda>x. sep_key x = 1000000000) ?pre" using st by blast
  also have "\<dots> = filter (\<lambda>x. sep_arcmin x = None) ?pre"
    by (rule filter_cong) (auto simp: key_none)
  finally have f: "filter (\<lambda>x. sep_arcmin x = None) ?out = filter (\<lambda>x. sep_arcmin x = None) ?pre" .
  have fv: "\<forall>v. filter (\<lambda>x. sep_arcmin x = v) ?out = filter (\<lambda>x. sep_arcmin x = v) ?pre"
  proof
    fix v show "filter (\<lambda>x. sep_arcmin x = v) ?out = filter (\<lambda>x. sep_arcmin x = v) ?pre"
    proof (cases v)
      case None
      then show ?thesis using f by simp
    next
      case (Some t)
      show ?thesis
      proof (cases "t \<le> 10800")
        case True
        have "filter (\<lambda>x. sep_arcmin x = Some t) ?out = filter (\<lambda>x. sep_key x = t) ?out"
          by (rule filter_cong) (auto simp: key_some[OF _ True] setout)
        also have "\<dots> = filter (\<lambda>x. sep_key x = t) ?pre" using st by blast
        also have "\<dots> = filter (\<lambda>x. sep_arcmin x = Some t) ?pre"
          by (rule filter_cong) (auto simp: key_some[OF _ True])
        finally show ?thesis using Some by simp
      next
        case False
        then have "\<forall>x \<in> set ?pre. sep_arcmin x \<noteq> Some t" using bound by fastforce
        then have "filter (\<lambda>x. sep_arcmin x = Some t) ?out = []"
          and "filter (\<lambda>x. sep_arcmin x = Some t) ?pre = []"
          using setout by (auto simp: filter_empty_conv)
        then show ?thesis using Some by simp
      qed
    qed
  qed
  have ord: "\<forall>i j s t. i < j \<and> j < length ?out \<and> sep_arcmin (?out ! i) = Some s
                 \<and> sep_arcmin (?out ! j) = Some t \<longrightarrow> s \<le> t"
  proof (intro allI impI)
    fix i j s t
    assume h: "i < j \<and> j < length ?out \<and> sep_arcmin (?out ! i) = Some s
                 \<and> sep_arcmin (?out ! j) = Some t"
    then have "sep_key (?out ! i) \<le> sep_key (?out ! j)"
      using s by (simp add: sorted_iff_nth_mono)
    then show "s \<le> t" using h by (simp add: sep_key_def)
  qed
  have late: "\<forall>i j. i < j \<and> j < length ?out \<and> sep_arcmin (?out ! i) = None
                 \<longrightarrow> sep_arcmin (?out ! j) = None"
  proof (intro allI impI)
    fix i j assume h: "i < j \<and> j < length ?out \<and> sep_arcmin (?out ! i) = None"
    then have le: "sep_key (?out ! i) \<le> sep_key (?out ! j)"
      using s by (simp add: sorted_iff_nth_mono)
    have mj: "?out ! j \<in> set ?pre"
      using h setout nth_mem[of j ?out] by auto
    have ki: "sep_key (?out ! i) = 1000000000" using h by (simp add: sep_key_def)
    show "sep_arcmin (?out ! j) = None"
    proof (cases "sep_arcmin (?out ! j)")
      case None then show ?thesis .
    next
      case (Some t)
      then have "t \<le> 10800" using bound[OF mj] by simp
      moreover have "sep_key (?out ! j) = t" using Some by (simp add: sep_key_def)
      ultimately show ?thesis using le ki by simp
    qed
  qed
  have val: "\<forall>x \<in> set ?out.
          case (ra_c, dec_c, ra_deg x, dec_deg x) of
            (Some c1, Some c2, Some r, Some d) \<Rightarrow> sep_arcmin x = Some (angsep_deg c1 c2 r d * 60)
          | _ \<Rightarrow> sep_arcmin x = None"
  proof
    fix x assume "x \<in> set ?out"
    then obtain y where y: "y \<in> set (merge_objects py A B)" and x: "x = add_sep ra_c dec_c y"
      using setout by auto
    have "sep_arcmin y = None" using merge_objects_no_sep[OF assms] y by blast
    then show "case (ra_c, dec_c, ra_deg x, dec_deg x) of
            (Some c1, Some c2, Some r, Some d) \<Rightarrow> sep_arcmin x = Some (angsep_deg c1 c2 r d * 60)
          | _ \<Rightarrow> sep_arcmin x = None"
      unfolding x by (rule add_sep_value)
  qed
  show ?thesis using s ord late st fv f val by blast
qed

theorem reconcile_sorted_missing_last_stable_witness:
  "sep_arcmin (stdout_obj ''M 1'' ''M 1'' (Some ''M'') (Some ''1'')) = None
   \<and> sep_arcmin (objs_item ''a'' (Some ''far'') (Some 90) (Some 0) None None) = None
   \<and> sep_arcmin (objs_item ''b'' (Some ''vega'') (Some 0) (Some 0) None None) = None
   \<and> reconcile ascii_str (Some 0) (Some 0)
        [stdout_obj ''M 1'' ''M 1'' (Some ''M'') (Some ''1'')]
        [objs_item ''a'' (Some ''far'') (Some 90) (Some 0) None None,
         objs_item ''b'' (Some ''vega'') (Some 0) (Some 0) None None]
      = [\<lparr>raw = None, name = Some ''vega'', catalog = None, ident = None,
          ra_deg = Some 0, dec_deg = Some 0, sep_arcmin = Some 0\<rparr>,
         \<lparr>raw = None, name = Some ''far'', catalog = None, ident = None,
          ra_deg = Some 90, dec_deg = Some 0, sep_arcmin = Some 5400\<rparr>,
         stdout_obj ''M 1'' ''M 1'' (Some ''M'') (Some ''1'')]
   \<and> sorted (map sep_key (reconcile ascii_str (Some 0) (Some 0)
        [stdout_obj ''M 1'' ''M 1'' (Some ''M'') (Some ''1'')]
        [objs_item ''a'' (Some ''far'') (Some 90) (Some 0) None None,
         objs_item ''b'' (Some ''vega'') (Some 0) (Some 0) None None]))"
proof -
  have h: "\<forall>ob \<in> set [stdout_obj ''M 1'' ''M 1'' (Some ''M'') (Some ''1'')]
            \<union> set [objs_item ''a'' (Some ''far'') (Some 90) (Some 0) None None,
                    objs_item ''b'' (Some ''vega'') (Some 0) (Some 0) None None]. sep_arcmin ob = None"
    by (simp add: stdout_obj_def objs_item_def empty_mention_def truthy_str_def)
  have e: "reconcile ascii_str (Some 0) (Some 0)
        [stdout_obj ''M 1'' ''M 1'' (Some ''M'') (Some ''1'')]
        [objs_item ''a'' (Some ''far'') (Some 90) (Some 0) None None,
         objs_item ''b'' (Some ''vega'') (Some 0) (Some 0) None None]
      = [\<lparr>raw = None, name = Some ''vega'', catalog = None, ident = None,
          ra_deg = Some 0, dec_deg = Some 0, sep_arcmin = Some 0\<rparr>,
         \<lparr>raw = None, name = Some ''far'', catalog = None, ident = None,
          ra_deg = Some 90, dec_deg = Some 0, sep_arcmin = Some 5400\<rparr>,
         stdout_obj ''M 1'' ''M 1'' (Some ''M'') (Some ''1'')]"
    by (simp add: reconcile_def merge_objects_def merge_step_def append_step_def add_sep_def sep_key_def
        angsep_deg_examples Let_def norm_str_def
        stdout_obj_def objs_item_def empty_mention_def truthy_str_def obj_key_def ascii_norm_examples
        update_from_def overlay_def)
  have h': "sep_arcmin (stdout_obj ''M 1'' ''M 1'' (Some ''M'') (Some ''1'')) = None
      \<and> sep_arcmin (objs_item ''a'' (Some ''far'') (Some 90) (Some 0) None None) = None
      \<and> sep_arcmin (objs_item ''b'' (Some ''vega'') (Some 0) (Some 0) None None) = None"
    using h by simp
  from reconcile_sorted_missing_last_stable [OF h, of ascii_str "Some 0" "Some 0"] h' e
  show ?thesis by blast
qed


text \<open>
  Claim C10. Over the reals, angsep\_deg lies in the closed interval from 0 to 180
  degrees; so a separation the separation loop stores in an entry that had none is at most
  10800 arc-minutes and the sort key of that entry is strictly below the key 1e9 of every
  entry without a separation.
\<close>

theorem angsep_deg_range_below_sentinel:
  "0 \<le> angsep_deg ra1 dec1 ra2 dec2 \<and> angsep_deg ra1 dec1 ra2 dec2 \<le> 180
   \<and> (\<forall>s. sep_arcmin ob = None \<and> sep_arcmin (add_sep ra_c dec_c ob) = Some s
          \<longrightarrow> 0 \<le> s \<and> s \<le> 10800
              \<and> (\<forall>x. sep_arcmin x = None \<longrightarrow> sep_key (add_sep ra_c dec_c ob) < sep_key x))"
proof -
  have "\<forall>s. sep_arcmin ob = None \<and> sep_arcmin (add_sep ra_c dec_c ob) = Some s
          \<longrightarrow> 0 \<le> s \<and> s \<le> 10800
              \<and> (\<forall>x. sep_arcmin x = None \<longrightarrow> sep_key (add_sep ra_c dec_c ob) < sep_key x)"
  proof (intro allI impI)
    fix s assume a: "sep_arcmin ob = None \<and> sep_arcmin (add_sep ra_c dec_c ob) = Some s"
    then have b: "0 \<le> s \<and> s \<le> 10800" using add_sep_bound by blast
    then have "\<forall>x. sep_arcmin x = None \<longrightarrow> sep_key (add_sep ra_c dec_c ob) < sep_key x"
      using a by (simp add: sep_key_def)
    with b show "0 \<le> s \<and> s \<le> 10800
              \<and> (\<forall>x. sep_arcmin x = None \<longrightarrow> sep_key (add_sep ra_c dec_c ob) < sep_key x)" by blast
  qed
  then show ?thesis using angsep_deg_bounds by blast
qed

theorem angsep_deg_range_below_sentinel_witness:
  "sep_arcmin (objs_item ''a'' (Some ''vega'') (Some 0) (Some 0) None None) = None
   \<and> sep_arcmin (add_sep (Some 0) (Some 0) (objs_item ''a'' (Some ''vega'') (Some 0) (Some 0) None None)) = Some 0
   \<and> sep_arcmin (stdout_obj ''M 1'' ''M 1'' None None) = None
   \<and> sep_key (add_sep (Some 0) (Some 0) (objs_item ''a'' (Some ''vega'') (Some 0) (Some 0) None None))
       < sep_key (stdout_obj ''M 1'' ''M 1'' None None)
   \<and> 0 \<le> angsep_deg 0 0 0 0 \<and> angsep_deg 0 0 0 0 \<le> 180"
proof -
  have h1: "sep_arcmin (objs_item ''a'' (Some ''vega'') (Some 0) (Some 0) None None) = None"
    by (simp add: objs_item_def empty_mention_def truthy_str_def)
  have h2: "sep_arcmin (add_sep (Some 0) (Some 0)
              (objs_item ''a'' (Some ''vega'') (Some 0) (Some 0) None None)) = Some 0"
    by (simp add: add_sep_def objs_item_def empty_mention_def truthy_str_def angsep_deg_def
          radians_def degrees_def)
  have h3: "sep_arcmin (stdout_obj ''M 1'' ''M 1'' None None) = None"
    by (simp add: stdout_obj_def empty_mention_def truthy_str_def)
  from angsep_deg_range_below_sentinel
         [of 0 0 0 0 "objs_item ''a'' (Some ''vega'') (Some 0) (Some 0) None None" "Some 0" "Some 0"]
    h1 h2 h3 show ?thesis by blast
qed

section \<open>Properties of the normalization\<close>

lemma dict_store_keys: "fst ` set (dict_store k v d) = insert k (fst ` set d)"
  by (induction d) auto

lemma dict_store_distinct: "distinct (map fst d) \<Longrightarrow> distinct (map fst (dict_store k v d))"
  by (induction d) (auto simp: dict_store_keys)

lemma dict_store_fresh: "k \<notin> fst ` set d \<Longrightarrow> dict_store k v d = d @ [(k, v)]"
  by (induction d) auto

lemma fold_dict_store_distinct:
  "distinct (map fst d) \<Longrightarrow> distinct (map fst (fold (\<lambda>kv d. dict_store (fst kv) (snd kv) d) kvs d))"
  by (induction kvs arbitrary: d) (auto simp: dict_store_distinct)

lemma fold_dict_store_fresh:
  "distinct (map fst kvs) \<Longrightarrow> fst ` set kvs \<inter> fst ` set d = {} \<Longrightarrow>
   fold (\<lambda>kv d. dict_store (fst kv) (snd kv) d) kvs d = d @ kvs"
proof (induction kvs arbitrary: d)
  case Nil then show ?case by simp
next
  case (Cons kv kvs)
  have "dict_store (fst kv) (snd kv) d = d @ [kv]" using Cons.prems by (simp add: dict_store_fresh)
  moreover have "fold (\<lambda>kv d. dict_store (fst kv) (snd kv) d) kvs (d @ [kv]) = (d @ [kv]) @ kvs"
    using Cons.prems by (intro Cons.IH) auto
  ultimately show ?case by simp
qed

lemma dict_comp_distinct: "distinct (map fst (dict_comp kvs))"
  by (simp add: dict_comp_def fold_dict_store_distinct)

lemma dict_comp_id: "distinct (map fst kvs) \<Longrightarrow> dict_comp kvs = kvs"
  by (simp add: dict_comp_def fold_dict_store_fresh)

lemma dict_store_all: "P (k, v) \<Longrightarrow> list_all P d \<Longrightarrow> list_all P (dict_store k v d)"
  by (induction d) auto

lemma fold_dict_store_all:
  "list_all P kvs \<Longrightarrow> list_all P d \<Longrightarrow> list_all P (fold (\<lambda>kv d. dict_store (fst kv) (snd kv) d) kvs d)"
  by (induction kvs arbitrary: d) (auto simp: dict_store_all)

lemma dict_comp_all: "list_all P kvs \<Longrightarrow> list_all P (dict_comp kvs)"
  by (simp add: dict_comp_def fold_dict_store_all)

lemma to_native_fixes_native: "is_native v \<Longrightarrow> to_native sf v = v"
proof (induction v rule: is_native.induct)
  case (6 xs)
  then show ?case by (auto simp: list_all_iff intro: map_idI)
next
  case (7 kvs)
  have "map (\<lambda>kv. (PStr (py_str sf (fst kv)), to_native sf (snd kv))) kvs = kvs"
  proof (rule map_idI)
    fix kv assume m: "kv \<in> set kvs"
    then have n: "is_native (snd kv)" and k: "(case fst kv of PStr s \<Rightarrow> True | _ \<Rightarrow> False)"
      using 7(2) by (auto simp: list_all_iff)
    from k have "PStr (py_str sf (fst kv)) = fst kv" by (auto simp: py_str_def split: pyval.splits)
    moreover have "to_native sf (snd kv) = snd kv" using 7(1)[OF m] n by simp
    ultimately show "(PStr (py_str sf (fst kv)), to_native sf (snd kv)) = kv" by (simp add: prod_eq_iff)
  qed
  then show ?case using 7(2) by (simp add: dict_comp_id)
qed auto

lemma to_native_native: "no_np_scalar v \<Longrightarrow> is_native (to_native sf v)"
proof (induction v rule: no_np_scalar.induct)
  case (3 kvs)
  have "list_all (\<lambda>kv. (case fst kv of PStr s \<Rightarrow> True | _ \<Rightarrow> False) \<and> is_native (snd kv))
          (map (\<lambda>kv. (PStr (py_str sf (fst kv)), to_native sf (snd kv))) kvs)"
    using 3 by (auto simp: list_all_iff)
  then show ?case by (simp add: dict_comp_all dict_comp_distinct)
qed (auto simp: list_all_iff split: option.splits)

text \<open>
  On a value that holds no numpy scalar the result is a native, and natives are fixed points:
  there \<open>to_native\<close> is idempotent.
\<close>

lemma to_native_idem_without_np_scalar:
  "no_np_scalar v \<Longrightarrow> to_native str_of (to_native str_of v) = to_native str_of v"
  by (simp add: to_native_fixes_native to_native_native)

lemma np_scalar_result_not_native:
  "\<not> is_native (to_native str_of (NpGeneric (PObject n)))"
  by simp

text \<open>
  Claim C8 fails on a numpy scalar whose \<open>item()\<close> is no native (a complex number, a
  date): the branch for \<open>np.generic\<close> returns \<open>obj.item()\<close> as it is, where the
  branch for \<open>np.ndarray\<close> normalizes every element. For
  \<open>numpy.complex128(1+2j)\<close> the first application returns the Python complex number
  and the second application returns its display string.
\<close>

theorem to_native_not_idempotent_on_numpy_complex:
  "to_native (\<lambda>v. ''(1+2j)'') (NpGeneric (PObject ''complex(1+2j)'')) = PObject ''complex(1+2j)''
   \<and> to_native (\<lambda>v. ''(1+2j)'') (to_native (\<lambda>v. ''(1+2j)'') (NpGeneric (PObject ''complex(1+2j)'')))
       = PStr ''(1+2j)''
   \<and> to_native (\<lambda>v. ''(1+2j)'') (to_native (\<lambda>v. ''(1+2j)'') (NpGeneric (PObject ''complex(1+2j)'')))
       \<noteq> to_native (\<lambda>v. ''(1+2j)'') (NpGeneric (PObject ''complex(1+2j)''))"
  by simp

section \<open>Properties of the .wcs header reading\<close>

lemma cd_comp_keys:
  "cd_comp sf hdr ks = Some cd \<Longrightarrow> map fst cd = filter (\<lambda>k. map_of hdr k \<noteq> None) ks"
  by (induction ks arbitrary: cd) (auto split: option.splits)

lemma cd_comp_vals:
  "cd_comp sf hdr ks = Some cd \<Longrightarrow> (k, f) \<in> set cd \<Longrightarrow> py_float sf (map_of hdr k) = Some f"
  by (induction ks arbitrary: cd) (auto split: option.splits)

lemma cd_comp_absent:
  "list_all (\<lambda>k. map_of hdr k = None) ks \<Longrightarrow> cd_comp sf hdr ks = Some []"
  by (induction ks) auto

lemma cd_comp_total:
  "list_all (\<lambda>k. map_of hdr k = None \<or> py_float sf (map_of hdr k) \<noteq> None) ks
   \<Longrightarrow> cd_comp sf hdr ks \<noteq> None"
  by (induction ks) (auto split: option.splits)

text \<open>
  Claim C9, as stated, fails: with only \<open>CD1_1\<close> of the four fields in the header, a
  matrix of that one field is stored; the guard is \<open>if cd:\<close>, a non-empty dictionary.
\<close>

theorem partial_cd_matrix_is_stored:
  "cd_matrix (read_wcs (\<lambda>s. None)
       (WcsHeader [(''CRVAL1'', HFloat 83), (''CRVAL2'', HFloat (-5)), (''CD1_1'', HFloat 2)])
       \<lparr>ra_center = None, dec_center = None, fov_deg = None, pixscale_arcsec = None,
        orientation_deg = None, cd_matrix = None\<rparr>)
   = Some [(''CD1_1'', 2)]
   \<and> map_of [(''CRVAL1'', HFloat 83), (''CRVAL2'', HFloat (-5)), (''CD1_1'', HFloat 2)] ''CD2_2'' = None"
  by (simp add: read_wcs_def py_float_def cd_keys_def setdefault_def)

text \<open>
  Claim C9, amended. Starting without a matrix: a matrix in the output comes from an
  existing header, is not empty and holds exactly those of the four fields that are present,
  each with its value as a float; if none of the four fields is present, no matrix appears;
  and if \<open>CRVAL1\<close>, \<open>CRVAL2\<close> and every present field of the four convert to a float
  and at least one of the four is present, a matrix is stored.
\<close>

theorem cd_matrix_holds_the_present_fields:
  assumes "cd_matrix a = None"
  shows "(cd_matrix (read_wcs sf w a) = Some cd \<longrightarrow>
            (\<exists>hdr. w = WcsHeader hdr \<and> cd \<noteq> []
               \<and> map fst cd = filter (\<lambda>k. map_of hdr k \<noteq> None) cd_keys
               \<and> list_all (\<lambda>kf. py_float sf (map_of hdr (fst kf)) = Some (snd kf)) cd))
       \<and> (list_all (\<lambda>k. map_of hdr' k = None) cd_keys \<longrightarrow>
            cd_matrix (read_wcs sf (WcsHeader hdr') a) = None)
       \<and> (py_float sf (map_of hdr' ''CRVAL1'') \<noteq> None \<and> py_float sf (map_of hdr' ''CRVAL2'') \<noteq> None
            \<and> list_all (\<lambda>k. map_of hdr' k = None \<or> py_float sf (map_of hdr' k) \<noteq> None) cd_keys
            \<and> \<not> list_all (\<lambda>k. map_of hdr' k = None) cd_keys \<longrightarrow>
            cd_matrix (read_wcs sf (WcsHeader hdr') a) \<noteq> None)"
proof -
  have 1: "cd_matrix (read_wcs sf w a) = Some cd \<longrightarrow>
            (\<exists>hdr. w = WcsHeader hdr \<and> cd \<noteq> []
               \<and> map fst cd = filter (\<lambda>k. map_of hdr k \<noteq> None) cd_keys
               \<and> list_all (\<lambda>kf. py_float sf (map_of hdr (fst kf)) = Some (snd kf)) cd)"
  proof
    assume h: "cd_matrix (read_wcs sf w a) = Some cd"
    then obtain hdr where w: "w = WcsHeader hdr" using assms
      by (cases w) (auto simp: read_wcs_def)
    from h w assms have c: "cd_comp sf hdr cd_keys = Some cd" and ne: "cd \<noteq> []"
      by (auto simp: read_wcs_def Let_def split: option.splits if_splits)
    have "list_all (\<lambda>kf. py_float sf (map_of hdr (fst kf)) = Some (snd kf)) cd"
      using cd_comp_vals[OF c] by (auto simp: list_all_iff)
    with w ne cd_comp_keys[OF c] show "\<exists>hdr. w = WcsHeader hdr \<and> cd \<noteq> []
               \<and> map fst cd = filter (\<lambda>k. map_of hdr k \<noteq> None) cd_keys
               \<and> list_all (\<lambda>kf. py_float sf (map_of hdr (fst kf)) = Some (snd kf)) cd" by blast
  qed
  have 2: "list_all (\<lambda>k. map_of hdr' k = None) cd_keys \<longrightarrow>
            cd_matrix (read_wcs sf (WcsHeader hdr') a) = None"
    using assms by (auto simp: read_wcs_def Let_def cd_comp_absent split: option.splits)
  have 3: "py_float sf (map_of hdr' ''CRVAL1'') \<noteq> None \<and> py_float sf (map_of hdr' ''CRVAL2'') \<noteq> None
            \<and> list_all (\<lambda>k. map_of hdr' k = None \<or> py_float sf (map_of hdr' k) \<noteq> None) cd_keys
            \<and> \<not> list_all (\<lambda>k. map_of hdr' k = None) cd_keys \<longrightarrow>
            cd_matrix (read_wcs sf (WcsHeader hdr') a) \<noteq> None"
  proof
    assume h: "py_float sf (map_of hdr' ''CRVAL1'') \<noteq> None \<and> py_float sf (map_of hdr' ''CRVAL2'') \<noteq> None
            \<and> list_all (\<lambda>k. map_of hdr' k = None \<or> py_float sf (map_of hdr' k) \<noteq> None) cd_keys
            \<and> \<not> list_all (\<lambda>k. map_of hdr' k = None) cd_keys"
    then obtain cd' where c: "cd_comp sf hdr' cd_keys = Some cd'"
      using cd_comp_total[of hdr' sf cd_keys] by auto
    have "filter (\<lambda>k. map_of hdr' k \<noteq> None) cd_keys \<noteq> []"
      using h by (auto simp: list_all_iff filter_empty_conv)
    then have "cd' \<noteq> []" using cd_comp_keys[OF c] by auto
    then show "cd_matrix (read_wcs sf (WcsHeader hdr') a) \<noteq> None"
      using h c by (auto simp: read_wcs_def Let_def split: option.splits)
  qed
  from 1 2 3 show ?thesis by blast
qed

theorem cd_matrix_holds_the_present_fields_witness:
  "cd_matrix \<lparr>ra_center = Some 83, dec_center = None, fov_deg = None, pixscale_arcsec = None,
              orientation_deg = None, cd_matrix = None\<rparr> = None
   \<and> cd_matrix (read_wcs (\<lambda>s. None)
        (WcsHeader [(''CRVAL1'', HFloat 80), (''CRVAL2'', HInt 5), (''CD1_1'', HFloat 2), (''CD2_2'', HInt 3)])
        \<lparr>ra_center = Some 83, dec_center = None, fov_deg = None, pixscale_arcsec = None,
         orientation_deg = None, cd_matrix = None\<rparr>) = Some [(''CD1_1'', 2), (''CD2_2'', 3)]
   \<and> map fst [(''CD1_1'', 2::real), (''CD2_2'', 3)]
       = filter (\<lambda>k. map_of [(''CRVAL1'', HFloat 80), (''CRVAL2'', HInt 5), (''CD1_1'', HFloat 2),
                              (''CD2_2'', HInt 3)] k \<noteq> None) cd_keys
   \<and> cd_matrix (read_wcs (\<lambda>s. None) (WcsHeader [(''CRVAL1'', HFloat 80), (''CRVAL2'', HInt 5)])
        \<lparr>ra_center = Some 83, dec_center = None, fov_deg = None, pixscale_arcsec = None,
         orientation_deg = None, cd_matrix = None\<rparr>) = None"
proof -
  let ?a = "\<lparr>ra_center = Some 83, dec_center = None, fov_deg = None, pixscale_arcsec = None,
              orientation_deg = None, cd_matrix = None\<rparr>"
  let ?h = "[(''CRVAL1'', HFloat 80), (''CRVAL2'', HInt 5), (''CD1_1'', HFloat 2), (''CD2_2'', HInt 3)]"
  let ?h' = "[(''CRVAL1'', HFloat 80), (''CRVAL2'', HInt 5)]"
  have a: "cd_matrix ?a = None" by simp
  have e: "cd_matrix (read_wcs (\<lambda>s. None) (WcsHeader ?h) ?a) = Some [(''CD1_1'', 2), (''CD2_2'', 3)]"
    by (simp add: read_wcs_def py_float_def cd_keys_def setdefault_def)
  have n: "list_all (\<lambda>k. map_of ?h' k = None) cd_keys" by (simp add: cd_keys_def)
  from cd_matrix_holds_the_present_fields
         [OF a, of "\<lambda>s. None" "WcsHeader ?h" "[(''CD1_1'', 2), (''CD2_2'', 3)]" ?h'] a e n
  show ?thesis by auto
qed

section \<open>Properties of the job store and the job engine\<close>

lemma area_of_ensure [simp]: "area_of j (ensure_job_dirs j fs) = area_of j fs"
  by (simp add: area_of_def ensure_job_dirs_def empty_area_def split: option.splits)

lemma area_of_upd [simp]: "area_of j (fs(j \<mapsto> a)) = a"
  by (simp add: area_of_def)

lemma ensure_upd [simp]: "ensure_job_dirs j (fs(j \<mapsto> a)) = fs(j \<mapsto> a)"
  by (simp add: ensure_job_dirs_def)

lemma ensure_idem [simp]: "ensure_job_dirs j (ensure_job_dirs j fs) = ensure_job_dirs j fs"
  by (simp add: ensure_job_dirs_def split: option.splits)

lemma observed_ensure [simp]: "observed_state j (ensure_job_dirs j fs) = observed_state j fs"
  by (simp add: observed_state_def read_status_def Let_def)

lemma stored_ensure [simp]: "stored_result j (ensure_job_dirs j fs) = stored_result j fs"
  by (simp add: stored_result_def)

lemma observed_write_status [simp]:
  "observed_state j (fst (write_status now j st msg ps fs)) = Some st"
  by (simp add: observed_state_def read_status_def write_status_def Let_def)

lemma stored_write_status [simp]:
  "stored_result j (fst (write_status now j st msg ps fs)) = stored_result j fs"
  by (simp add: stored_result_def write_status_def Let_def)

lemma observed_append_log [simp]: "observed_state j (append_log j es fs) = observed_state j fs"
  by (simp add: observed_state_def read_status_def append_log_def Let_def)

lemma stored_append_log [simp]: "stored_result j (append_log j es fs) = stored_result j fs"
  by (simp add: stored_result_def append_log_def)

lemma observed_write_result [simp]: "observed_state j (write_result j r fs) = observed_state j fs"
  by (simp add: observed_state_def read_status_def write_result_def Let_def)

lemma stored_write_result [simp]: "stored_result j (write_result j r fs) = Some (Json r)"
  by (simp add: stored_result_def write_result_def)

lemma cmd_result_stored:
  "fst (snd (cmd_result j fs)) =
     (case stored_result j fs of None \<Rightarrow> NotReady (observed_state j fs)
      | Some Garbled \<Rightarrow> InvalidResult | Some (Json d) \<Rightarrow> ResultDoc d)"
  by (simp add: cmd_result_def stored_result_def observed_state_def Let_def read_status_def
        split: option.splits stored.splits prod.splits)

lemma run_worker_cases:
  "run_worker lib outcome now1 now2 j ps fs = (ex, tr) \<Longrightarrow>
   (\<exists>e. outcome = ExecRaised e \<and> ex = Returned 1 \<and> length tr = 3
        \<and> map (observed_state j) tr = [observed_state j fs, Some Processing, Some Error]
        \<and> map (stored_result j) tr = [stored_result j fs, stored_result j fs, stored_result j fs])
   \<or> (\<exists>rc out r. outcome = ExecCompleted rc out \<and> r = interpret_stdout lib rc out \<and>
        ((\<exists>kvs. r = JObj kvs \<and> json_truthy (map_of kvs ''ok'') \<and> ex = Returned 0
            \<and> map (observed_state j) tr = [observed_state j fs, Some Processing, Some Processing, Some Processing, Some Done]
            \<and> map (stored_result j) tr = [stored_result j fs, stored_result j fs, stored_result j fs, Some (Json r), Some (Json r)])
       \<or> (\<exists>kvs. r = JObj kvs \<and> \<not> json_truthy (map_of kvs ''ok'') \<and> ex = Returned 2
            \<and> map (observed_state j) tr = [observed_state j fs, Some Processing, Some Processing, Some Processing, Some Error]
            \<and> map (stored_result j) tr = [stored_result j fs, stored_result j fs, stored_result j fs, Some (Json r), Some (Json r)])
       \<or> ((\<forall>kvs. r \<noteq> JObj kvs) \<and> ex = Uncaught ''AttributeError''
            \<and> map (observed_state j) tr = [observed_state j fs, Some Processing, Some Processing, Some Processing]
            \<and> map (stored_result j) tr = [stored_result j fs, stored_result j fs, stored_result j fs, Some (Json r)])))"
  apply (cases outcome)
   apply (auto simp: run_worker_def Let_def split: json.splits if_splits)
  done


lemma observed_submit_upd [simp]:
  "observed_state j (fs(j \<mapsto> a)) = (case status_file a of Some (Json d) \<Rightarrow> Some (sd_state d) | _ \<Rightarrow> None)"
  by (simp add: observed_state_def read_status_def Let_def split: option.splits stored.splits)

lemma observed_empty [simp]: "observed_state j Map.empty = None"
  by (simp add: observed_state_def read_status_def Let_def ensure_job_dirs_def area_of_def empty_area_def)

lemma stored_empty [simp]: "stored_result j Map.empty = None"
  by (simp add: stored_result_def area_of_def empty_area_def)

text \<open>
  The failure paths that go through the result document do persist an error record before
  the status becomes \<open>error\<close>.
\<close>

lemma worker_error_record_persisted:
  assumes "run_worker lib (ExecCompleted rc out) now1 now2 j ps fs = (Returned 2, tr)"
  shows "observed_state j (last tr) = Some Error
       \<and> stored_result j (last tr) = Some (Json (interpret_stdout lib rc out))"
  using run_worker_cases[OF assms]
  by (auto simp: map_eq_Cons_conv)

text \<open>
  When the extractor prints JSON that is no object, \<open>result.get\<close> raises after the
  result file is written and the status stays \<open>processing\<close>.
\<close>

lemma worker_non_object_output_uncaught:
  assumes "loads lib out = Some (JArr xs)"
  shows "fst (run_worker lib (ExecCompleted 0 out) now1 now2 j ps fs) = Uncaught ''AttributeError''
       \<and> observed_state j (last (snd (run_worker lib (ExecCompleted 0 out) now1 now2 j ps fs)))
           = Some Processing"
  using assms by (simp add: run_worker_def interpret_stdout_def Let_def)

text \<open>
  On the paths on which the extractor ran, the result document is written before the status
  becomes terminal: in every state of the trace in which a reader observes \<open>done\<close> or
  \<open>error\<close>, the stored result is the document made from the return code and the output.
\<close>

lemma worker_completed_paths_persist_before_flip:
  assumes nt: "\<not> terminal (observed_state j fs)"
  shows "\<forall>s \<in> set (snd (run_worker lib (ExecCompleted rc out) now1 now2 j ps fs)).
           terminal (observed_state j s) \<longrightarrow>
             stored_result j s = Some (Json (interpret_stdout lib rc out))"
proof -
  obtain ex tr where rw: "run_worker lib (ExecCompleted rc out) now1 now2 j ps fs = (ex, tr)"
    by (cases "run_worker lib (ExecCompleted rc out) now1 now2 j ps fs")
  have n0: "observed_state j fs \<noteq> Some Done" "observed_state j fs \<noteq> Some Error"
    using nt by (auto simp: terminal_def)
  have "\<forall>s \<in> set tr. terminal (observed_state j s) \<longrightarrow>
             stored_result j s = Some (Json (interpret_stdout lib rc out))"
    using run_worker_cases[OF rw] n0
    by (auto simp: terminal_def map_eq_Cons_conv)
  then show ?thesis unfolding rw snd_conv .
qed

text \<open>
  Claim C4 fails on the path of an execution error (the \<open>except\<close> branch of the worker,
  lines 150-152), from the same defect as claim C5: for a job that submit has queued, the
  worker flips the status to \<open>error\<close> and no result document is written before or after, so
  a reader that observes \<open>error\<close> finds the result document missing. The states of the trace
  are: the directories ensured, the status \<open>processing\<close> written, the status \<open>error\<close>
  written.
\<close>

theorem worker_flips_to_error_without_result:
  "map (observed_state ''job1'')
     (snd (run_worker \<lparr>loads = (\<lambda>s. None), str_json = (\<lambda>v. ''?''), str_int = (\<lambda>i. ''?'')\<rparr>
        (ExecRaised ''OSError'') 1 2 ''job1''
        \<lparr>scale_low = None, scale_high = None, downsample = Some 2, timeout = Some 600\<rparr>
        (fst (snd (snd (cmd_submit 0 ''job1''
           \<lparr>img_path = ''/data/m42.jpg'', img_name = ''m42.jpg'', img_exists = True\<rparr>
           \<lparr>scale_low = None, scale_high = None, downsample = Some 2, timeout = Some 600\<rparr>
           Map.empty))))))
     = [Some Queued, Some Processing, Some Error]
   \<and> map (stored_result ''job1'')
     (snd (run_worker \<lparr>loads = (\<lambda>s. None), str_json = (\<lambda>v. ''?''), str_int = (\<lambda>i. ''?'')\<rparr>
        (ExecRaised ''OSError'') 1 2 ''job1''
        \<lparr>scale_low = None, scale_high = None, downsample = Some 2, timeout = Some 600\<rparr>
        (fst (snd (snd (cmd_submit 0 ''job1''
           \<lparr>img_path = ''/data/m42.jpg'', img_name = ''m42.jpg'', img_exists = True\<rparr>
           \<lparr>scale_low = None, scale_high = None, downsample = Some 2, timeout = Some 600\<rparr>
           Map.empty))))))
     = [None, None, None]
   \<and> fst (snd (cmd_result ''job1'' (last
     (snd (run_worker \<lparr>loads = (\<lambda>s. None), str_json = (\<lambda>v. ''?''), str_int = (\<lambda>i. ''?'')\<rparr>
        (ExecRaised ''OSError'') 1 2 ''job1''
        \<lparr>scale_low = None, scale_high = None, downsample = Some 2, timeout = Some 600\<rparr>
        (fst (snd (snd (cmd_submit 0 ''job1''
           \<lparr>img_path = ''/data/m42.jpg'', img_name = ''m42.jpg'', img_exists = True\<rparr>
           \<lparr>scale_low = None, scale_high = None, downsample = Some 2, timeout = Some 600\<rparr>
           Map.empty)))))))))
     = NotReady (Some Error)"
  by (simp add: run_worker_def cmd_submit_def Let_def stored_result_def append_log_def
        write_status_def ensure_job_dirs_def area_of_def empty_area_def cmd_result_def
        read_status_def)

text \<open>
  Claim C5 fails on the path of an execution error (the \<open>except\<close> branch of the worker,
  lines 150-152): the state becomes \<open>error\<close> with the message, the worker returns 1, and
  no result document is written; \<open>cmd_result\<close> then reports "not ready" with the state
  \<open>error\<close>.
\<close>

theorem worker_execution_error_leaves_no_result:
  "fst (run_worker \<lparr>loads = (\<lambda>s. None), str_json = (\<lambda>v. ''?''), str_int = (\<lambda>i. ''?'')\<rparr>
          (ExecRaised ''UnicodeDecodeError'') 1 2 ''job1''
          \<lparr>scale_low = None, scale_high = None, downsample = Some 2, timeout = Some 600\<rparr> Map.empty)
     = Returned 1
   \<and> observed_state ''job1'' (last (snd (run_worker \<lparr>loads = (\<lambda>s. None), str_json = (\<lambda>v. ''?''), str_int = (\<lambda>i. ''?'')\<rparr>
          (ExecRaised ''UnicodeDecodeError'') 1 2 ''job1''
          \<lparr>scale_low = None, scale_high = None, downsample = Some 2, timeout = Some 600\<rparr> Map.empty)))
     = Some Error
   \<and> stored_result ''job1'' (last (snd (run_worker \<lparr>loads = (\<lambda>s. None), str_json = (\<lambda>v. ''?''), str_int = (\<lambda>i. ''?'')\<rparr>
          (ExecRaised ''UnicodeDecodeError'') 1 2 ''job1''
          \<lparr>scale_low = None, scale_high = None, downsample = Some 2, timeout = Some 600\<rparr> Map.empty)))
     = None
   \<and> cmd_result ''job1'' (last (snd (run_worker \<lparr>loads = (\<lambda>s. None), str_json = (\<lambda>v. ''?''), str_int = (\<lambda>i. ''?'')\<rparr>
          (ExecRaised ''UnicodeDecodeError'') 1 2 ''job1''
          \<lparr>scale_low = None, scale_high = None, downsample = Some 2, timeout = Some 600\<rparr> Map.empty)))
     = (1, NotReady (Some Error),
        last (snd (run_worker \<lparr>loads = (\<lambda>s. None), str_json = (\<lambda>v. ''?''), str_int = (\<lambda>i. ''?'')\<rparr>
          (ExecRaised ''UnicodeDecodeError'') 1 2 ''job1''
          \<lparr>scale_low = None, scale_high = None, downsample = Some 2, timeout = Some 600\<rparr> Map.empty)))"
  by (simp add: run_worker_def Let_def cmd_result_def write_status_def read_status_def
        ensure_job_dirs_def area_of_def empty_area_def stored_result_def observed_state_def)

text \<open>
  Claim C6, as stated, fails: \<open>cmd_submit\<close> calls \<open>ensure_job_dirs\<close> before it
  tests that the image exists, so the job's directories are on disk after the failed submit.
\<close>

theorem failed_submit_creates_job_directories:
  "fst (snd (snd (cmd_submit 0 ''job1'' \<lparr>img_path = ''/data/missing.jpg'', img_name = ''missing.jpg'', img_exists = False\<rparr>
       \<lparr>scale_low = None, scale_high = None, downsample = Some 2, timeout = Some 600\<rparr> Map.empty))) ''job1''
     = Some empty_area
   \<and> (Map.empty :: jobs_dir) ''job1'' = None"
  by (simp add: cmd_submit_def Let_def ensure_job_dirs_def)

text \<open>
  Claim C6, amended. For an image that does not exist, submit returns 1 with the error
  "Image not found", starts no worker and changes the directory tree by
  \<open>ensure_job_dirs\<close> only: every other job is untouched, an existing job is unchanged,
  and for a fresh identifier the job's directories are created empty (no input copy, no
  status document, no result, no log), so that status afterwards reports not-found.
\<close>

theorem failed_submit_writes_no_documents:
  assumes "\<not> img_exists src"
  shows "cmd_submit now j src ps fs = (1, SubmitError (''Image not found: '' @ img_path src), ensure_job_dirs j fs, None)
     \<and> (\<forall>k. k \<noteq> j \<longrightarrow> ensure_job_dirs j fs k = fs k)
     \<and> (fs j = None \<longrightarrow> ensure_job_dirs j fs j = Some empty_area
           \<and> fst (snd (cmd_status j (ensure_job_dirs j fs))) = JobNotFound j)
     \<and> (\<forall>a. fs j = Some a \<longrightarrow> ensure_job_dirs j fs = fs)"
  using assms
  by (auto simp: cmd_submit_def Let_def ensure_job_dirs_def cmd_status_def read_status_def area_of_def
        empty_area_def split: option.splits)

theorem failed_submit_writes_no_documents_witness:
  "cmd_submit 0 ''job1'' \<lparr>img_path = ''/data/missing.jpg'', img_name = ''missing.jpg'', img_exists = False\<rparr>
       \<lparr>scale_low = None, scale_high = None, downsample = Some 2, timeout = Some 600\<rparr> Map.empty
     = (1, SubmitError ''Image not found: /data/missing.jpg'', Map.empty(''job1'' \<mapsto> empty_area), None)
   \<and> fst (snd (cmd_status ''job1'' (Map.empty(''job1'' \<mapsto> empty_area)))) = JobNotFound ''job1''"
proof -
  have h: "\<not> img_exists \<lparr>img_path = ''/data/missing.jpg'', img_name = ''missing.jpg'', img_exists = False\<rparr>"
    by simp
  have e: "ensure_job_dirs ''job1'' Map.empty = Map.empty(''job1'' \<mapsto> empty_area)"
    by (simp add: ensure_job_dirs_def)
  from failed_submit_writes_no_documents [OF h, of 0 "''job1''"
       "\<lparr>scale_low = None, scale_high = None, downsample = Some 2, timeout = Some 600\<rparr>" Map.empty] e
  show ?thesis by simp
qed

text \<open>
  Claim C7, as stated, fails: \<open>read_status\<close> and \<open>cmd_result\<close> call
  \<open>ensure_job_dirs\<close>, so a status or result query for an identifier that was never
  created leaves the directories of that job on disk.
\<close>

theorem queries_create_job_directories:
  "snd (snd (cmd_status ''never-created'' Map.empty)) ''never-created'' = Some empty_area
   \<and> snd (snd (cmd_result ''never-created'' Map.empty)) ''never-created'' = Some empty_area
   \<and> (Map.empty :: jobs_dir) ''never-created'' = None"
  by (simp add: cmd_status_def cmd_result_def read_status_def Let_def ensure_job_dirs_def area_of_def empty_area_def)

text \<open>
  Claim C7, amended. For a job identifier that is a single path component (the form submit
  mints), created or not, the status and result queries change the directory tree by
  \<open>ensure_job_dirs\<close> only: the files of the queried job (input copy, status document,
  result document, log) and every other job are unchanged, the tree is unchanged when the
  job's directories exist, and for an identifier without directories the empty directories
  are created and status returns not-found.
\<close>

theorem queries_change_no_documents:
  assumes "single_component j"
  shows "snd (snd (cmd_status j fs)) = ensure_job_dirs j fs
   \<and> snd (snd (cmd_result j fs)) = ensure_job_dirs j fs
   \<and> area_of j (ensure_job_dirs j fs) = area_of j fs
   \<and> (\<forall>k. single_component k \<and> k \<noteq> j \<longrightarrow> ensure_job_dirs j fs k = fs k)
   \<and> (\<forall>a. fs j = Some a \<longrightarrow> ensure_job_dirs j fs = fs)
   \<and> (fs j = None \<longrightarrow> ensure_job_dirs j fs j = Some empty_area
         \<and> cmd_status j fs = (1, JobNotFound j, fs(j \<mapsto> empty_area)))"
  by (auto simp: cmd_status_def cmd_result_def read_status_def Let_def ensure_job_dirs_def area_of_def
        empty_area_def split: option.splits stored.splits)

theorem queries_change_no_documents_witness:
  "snd (snd (cmd_status ''job1'' (Map.empty(''job1'' \<mapsto> empty_area)))) = Map.empty(''job1'' \<mapsto> empty_area)
   \<and> snd (snd (cmd_result ''job1'' (Map.empty(''job1'' \<mapsto> empty_area)))) = Map.empty(''job1'' \<mapsto> empty_area)
   \<and> cmd_status ''job2'' Map.empty = (1, JobNotFound ''job2'', Map.empty(''job2'' \<mapsto> empty_area))"
proof -
  have s1: "single_component ''job1''" and s2: "single_component ''job2''"
    by (simp_all add: single_component_def)
  have a: "(Map.empty(''job1'' \<mapsto> empty_area)) ''job1'' = Some empty_area" by simp
  have b: "(Map.empty :: jobs_dir) ''job2'' = None" by simp
  from queries_change_no_documents [OF s1, of "Map.empty(''job1'' \<mapsto> empty_area)"]
       queries_change_no_documents [OF s2, of Map.empty] a b
  show ?thesis by simp
qed

end
